theory Spec2Isabelle
  imports Complex_Main "HOL-Library.AList"
begin

section \<open>Inventory cost sync: the transform of the dashboard payload\<close>

text \<open>
  A shallow embedding of \<^verbatim>\<open>transform_dashboard_data\<close>
  (\<^verbatim>\<open>scrape_markov_inventory.py\<close>) and of \<^verbatim>\<open>main\<close> (\<^verbatim>\<open>main.py\<close>).
  Python exceptions are values of \<open>error\<close>; a function that can raise returns
  \<open>error + 'a\<close>, with \<open>Inl\<close> for the exception. Dictionaries that are only read by key are
  maps; the dictionary \<^verbatim>\<open>aggregated\<close>, whose order of insertion is the order of the
  result, is an association list.

  Conventions of the model:
  \<^item> the values of the encode maps are strings and the captions and data ids of the
    columns are strings or null, as the data model has them, so \<^verbatim>\<open>str(obj['Owner'])\<close>
    is the identity; the payload itself is a dictionary, as the source annotates it;
  \<^item> Python floats are exact rationals (\<open>rat\<close>): no theorem below depends on rounding,
    and a statement about a numeric field is about strings on which \<^verbatim>\<open>float\<close> returns
    a finite number or raises;
  \<^item> \<^verbatim>\<open>datetime.now()\<close> is not modelled: the string \<^verbatim>\<open>date_now\<close> is a parameter;
  \<^item> \<^verbatim>\<open>json.loads\<close> and \<^verbatim>\<open>float\<close> are Python built-ins, not code of this
    program: they are the parameters \<open>py_loads\<close> and \<open>py_float\<close> of the transform, and
    every theorem with a variable for them holds whatever they compute. The example runs
    use the instances \<open>loads_ints\<close> and \<open>float_py\<close>, which cover the row keys and the
    numbers of the examples;
  \<^item> every section of the payload is either of the JSON type the code expects or of
    another type, on which Python raises AttributeError or TypeError; the elements of a
    row array are JSON values of any type.
\<close>

subsection \<open>Exceptions\<close>

datatype error =
  KeyError | IndexError | ValueError | ZeroDivisionError | NameError
  | AttributeError | TypeError | RecursionError

subsection \<open>Python built-ins\<close>

text \<open>\<^verbatim>\<open>s.startswith(p)\<close>.\<close>

fun startswith :: "string \<Rightarrow> string \<Rightarrow> bool" where
  "startswith s [] = True"
| "startswith [] (p # ps) = False"
| "startswith (c # s) (p # ps) = (c = p \<and> startswith s ps)"

text \<open>
  \<^verbatim>\<open>xs[k]\<close> on a list: a negative index counts from the end, and an index outside
  \<^verbatim>\<open>-len(xs) .. len(xs)-1\<close> raises IndexError.
\<close>

definition getitem :: "'a list \<Rightarrow> int \<Rightarrow> error + 'a" where
  "getitem xs k =
     (if 0 \<le> k \<and> k < int (length xs) then Inr (xs ! nat k)
      else if k < 0 \<and> - int (length xs) \<le> k then Inr (xs ! nat (int (length xs) + k))
      else Inl IndexError)"

text \<open>\<^verbatim>\<open>s in t\<close> on two strings: \<open>s\<close> occurs in \<open>t\<close>.\<close>

fun is_substring :: "string \<Rightarrow> string \<Rightarrow> bool" where
  "is_substring s [] = (s = [])"
| "is_substring s (c # t) = (startswith (c # t) s \<or> is_substring s t)"

text \<open>
  A value that \<^verbatim>\<open>json.loads\<close> returns. A float is a rational, or one of the three
  values Python reads from \<^verbatim>\<open>Infinity\<close>, \<^verbatim>\<open>-Infinity\<close> and \<^verbatim>\<open>NaN\<close>.
\<close>

datatype pyfloat = Finite rat | PosInf | NegInf | NaN

datatype json =
  JNull | JBool bool | JInt int | JFloat pyfloat | JStr string
  | JArr "json list" | JObj "(string \<times> json) list"

text \<open>
  What \<^verbatim>\<open>json.loads\<close> does on a text that begins with an opening bracket: it returns
  a list, raises JSONDecodeError, which the caller catches, or raises another exception,
  which the caller does not catch (RecursionError on deep nesting, ValueError on an
  integer of too many digits).
\<close>

datatype loads_result = Parsed "json list" | JSONDecodeError | Raised error

text \<open>Decimal digits and natural numbers written with them.\<close>

definition is_digit :: "char \<Rightarrow> bool" where
  "is_digit c = (c \<in> set ''0123456789'')"

definition digit_val :: "char \<Rightarrow> nat" where
  "digit_val c = of_char c - 48"

definition nat_of_digits :: "string \<Rightarrow> nat" where
  "nat_of_digits ds = foldl (\<lambda>a c. 10 * a + digit_val c) 0 ds"

definition is_space :: "char \<Rightarrow> bool" where
  "is_space c = (c \<in> set [CHR '' '', CHR 0x09, CHR 0x0A, CHR 0x0D])"

definition strip :: "string \<Rightarrow> string" where
  "strip s = rev (dropWhile is_space (rev (dropWhile is_space s)))"

text \<open>Splitting at every occurrence of a separator character (\<^verbatim>\<open>s.split(c)\<close>).\<close>

fun split_on :: "char \<Rightarrow> string \<Rightarrow> string list" where
  "split_on sep [] = [[]]"
| "split_on sep (c # cs) =
     (if c = sep then [] # split_on sep cs
      else (case split_on sep cs of
              [] \<Rightarrow> [[c]]
            | w # ws \<Rightarrow> (c # w) # ws))"

text \<open>A JSON integer: an optional minus sign and digits without a leading zero.\<close>

definition json_int :: "string \<Rightarrow> int option" where
  "json_int s =
     (let (neg, ds) = (case s of c # r \<Rightarrow> if c = CHR ''-'' then (True, r) else (False, s)
                                | [] \<Rightarrow> (False, s))
      in if ds = [] \<or> \<not> list_all is_digit ds \<or> (1 < length ds \<and> hd ds = CHR ''0'') then None
         else Some (if neg then - int (nat_of_digits ds) else int (nat_of_digits ds)))"

text \<open>
  The instance of \<^verbatim>\<open>json.loads\<close> for the example runs. It reads JSON arrays of
  integers, with optional white space around the brackets, the numbers and the commas,
  and answers \<open>None\<close> on every other text. It agrees with \<^verbatim>\<open>json.loads\<close> on the row
  keys of the examples; it says nothing on arrays with other elements or on texts where
  \<^verbatim>\<open>json.loads\<close> raises another exception, which only \<open>py_loads\<close> covers.
\<close>

definition json_loads :: "string \<Rightarrow> int list option" where
  "json_loads s =
     (let t = strip s in
      if length t < 2 \<or> hd t \<noteq> CHR ''['' \<or> last t \<noteq> CHR '']'' then None
      else let inner = strip (butlast (tl t)) in
        if inner = [] then Some []
        else let parts = map (\<lambda>p. json_int (strip p)) (split_on CHR '','' inner) in
          if list_all (\<lambda>p. p \<noteq> None) parts then Some (map the parts) else None)"

definition loads_ints :: "string \<Rightarrow> loads_result" where
  "loads_ints s = (case json_loads s of None \<Rightarrow> JSONDecodeError | Some ks \<Rightarrow> Parsed (map JInt ks))"

text \<open>
  The instance of \<^verbatim>\<open>float\<close> for the example runs. It reads decimal literals: optional
  blanks, tabs and line ends around, an optional sign, digits with at most one decimal
  point and at least one digit; it answers \<open>None\<close>, which stands for ValueError, on every
  other string. It agrees with \<^verbatim>\<open>float\<close> on the strings of the examples
  (\<^verbatim>\<open>5\<close>, \<^verbatim>\<open>-5\<close>, \<^verbatim>\<open>abc\<close>); exponents, underscores, \<^verbatim>\<open>inf\<close> and \<^verbatim>\<open>nan\<close>,
  and the rounding of a literal to a double, are covered only by \<open>py_float\<close>.
\<close>

definition float_py :: "string \<Rightarrow> rat option" where
  "float_py s =
     (let t = strip s;
          (neg, u) = (case t of c # r \<Rightarrow> if c = CHR ''-'' then (True, r)
                                           else if c = CHR ''+'' then (False, r) else (False, t)
                              | [] \<Rightarrow> (False, t));
          ip = takeWhile (\<lambda>c. c \<noteq> CHR ''.'') u;
          fp = (case dropWhile (\<lambda>c. c \<noteq> CHR ''.'') u of [] \<Rightarrow> [] | _ # r \<Rightarrow> r)
      in if \<not> list_all is_digit ip \<or> \<not> list_all is_digit fp \<or> (ip = [] \<and> fp = []) then None
         else let m = of_nat (nat_of_digits (ip @ fp)) / of_nat (10 ^ length fp)
              in Some (if neg then - m else m))"

subsection \<open>The payload\<close>

text \<open>
  Each JSON object of the payload that the code reads with \<^verbatim>\<open>.get\<close> is a record whose
  fields are optional: \<open>None\<close> is a missing key. The default \<^verbatim>\<open>{}\<close> of a \<^verbatim>\<open>.get\<close> is
  the record with every field missing. Of the dictionary \<^verbatim>\<open>Data\<close> only the keys are
  read (\<^verbatim>\<open>item_value\<close> is never used), so it is the list of its keys in order of
  insertion.

  The value under a key is of the type the code expects, or it is not. Where the code
  expects a dictionary, a value of any other type (null, a boolean, a number, a string,
  a list) is \<open>NotDict\<close>: \<^verbatim>\<open>.get\<close> and \<^verbatim>\<open>.items\<close> raise AttributeError on it. Where
  the code expects a list, a value of another type is \<open>Scalar\<close> (null, a boolean or a
  number), \<open>Str\<close> (a string) or \<open>Keys\<close> (a dictionary, given by its keys).
\<close>

datatype 'a dict_value = Dict 'a | NotDict

datatype 'a list_value = Elements "'a list" | Scalar | Str string | Keys "string list"

text \<open>
  The value under \<^verbatim>\<open>EncodeMaps\<close>, which the code uses with \<^verbatim>\<open>in\<close> and with
  indexing: a dictionary of lists of strings, or null, a boolean or a number
  (\<open>EncodeScalar\<close>), a string, or a list.
\<close>

datatype encode_maps_value =
  EncodeDict "string \<rightharpoonup> string list" | EncodeScalar | EncodeStr string | EncodeElements "json list"

record column =
  Caption :: "string option"
  DataId :: "string option"

record slice =
  Data :: "string list dict_value option"

record data_storage =
  Slices :: "slice dict_value list_value option"
  EncodeMaps :: "encode_maps_value option"

record item_data =
  DataStorageDTO :: "data_storage dict_value option"

record view_model =
  Columns :: "column dict_value list_value option"

record dashboard_data =
  ItemData :: "item_data dict_value option"
  ViewModel :: "view_model dict_value option"

text \<open>An entry of \<^verbatim>\<open>column_mappings\<close>; \<^verbatim>\<open>col.get\<close> gives \<^verbatim>\<open>None\<close> for a missing key.\<close>

record column_mapping =
  name :: "string option"
  dataId :: "string option"

text \<open>
  A flat row \<^verbatim>\<open>obj\<close>. Its keys are column names, which can be \<^verbatim>\<open>None\<close> when a
  column has no caption.
\<close>

type_synonym flat_row = "string option \<rightharpoonup> string"

subsection \<open>Decoder: one row array to a flat row\<close>

text \<open>
  One pass of the loop over \<^verbatim>\<open>enumerate(item_arr)\<close>: the field that position \<open>i\<close>
  with index \<open>value\<close> adds to \<^verbatim>\<open>obj\<close>, if any. \<^verbatim>\<open>data_id in encode_maps\<close> is false
  for a \<^verbatim>\<open>data_id\<close> that is \<^verbatim>\<open>None\<close>, the keys of a JSON object being strings. The
  only exception the indexing can raise is IndexError, which the loop catches.
\<close>

definition resolve ::
  "column_mapping list \<Rightarrow> (string \<rightharpoonup> string list) \<Rightarrow> nat \<Rightarrow> int \<Rightarrow> (string option \<times> string) option"
where
  "resolve column_mappings encode_maps i value =
     (if value = - 1 then None
      else if i \<ge> length column_mappings then None
      else let column = column_mappings ! i in
        (case dataId column of
           None \<Rightarrow> None
         | Some data_id \<Rightarrow>
             (case encode_maps data_id of
                None \<Rightarrow> None
              | Some dict \<Rightarrow>
                  if value < int (length dict) then
                    (case getitem dict value of
                       Inl e \<Rightarrow> None
                     | Inr v \<Rightarrow> Some (name column, v))
                  else None)))"

definition decode_row ::
  "column_mapping list \<Rightarrow> (string \<rightharpoonup> string list) \<Rightarrow> int list \<Rightarrow> flat_row"
where
  "decode_row column_mappings encode_maps item_arr =
     fold (\<lambda>(i, value) obj.
             case resolve column_mappings encode_maps i value of
               None \<Rightarrow> obj
             | Some (n, v) \<Rightarrow> obj(n \<mapsto> v))
          (enumerate 0 item_arr) Map.empty"

text \<open>
  The same pass with the types Python finds at run time. \<^verbatim>\<open>value == -1\<close> holds for the
  integer and for the float; a boolean counts as the integer 0 or 1; a float below the
  length reaches the indexing, which raises TypeError, as does the comparison of any
  other value with the length. With an \<^verbatim>\<open>encode_maps\<close> that is not a dictionary,
  \<^verbatim>\<open>data_id in encode_maps\<close> raises TypeError on a scalar, and on a string when
  \<^verbatim>\<open>data_id\<close> is \<^verbatim>\<open>None\<close>; when it holds, \<^verbatim>\<open>encode_maps[data_id]\<close> raises TypeError.
  TypeError is not caught by the loop.
\<close>

definition is_minus_one :: "json \<Rightarrow> bool" where
  "is_minus_one value =
     (case value of JInt k \<Rightarrow> k = - 1 | JFloat f \<Rightarrow> f = Finite (- 1) | _ \<Rightarrow> False)"

definition float_less :: "pyfloat \<Rightarrow> int \<Rightarrow> bool" where
  "float_less f n = (case f of Finite r \<Rightarrow> r < of_int n | NegInf \<Rightarrow> True | _ \<Rightarrow> False)"

definition resolve_value ::
  "column_mapping list \<Rightarrow> encode_maps_value \<Rightarrow> nat \<Rightarrow> json \<Rightarrow>
     error + (string option \<times> string) option"
where
  "resolve_value column_mappings encode_maps i value =
     (if is_minus_one value then Inr None
      else if i \<ge> length column_mappings then Inr None
      else let column = column_mappings ! i; data_id = dataId column in
        (case encode_maps of
           EncodeDict em \<Rightarrow>
             (case data_id of
                None \<Rightarrow> Inr None
              | Some did \<Rightarrow>
                  (case em did of
                     None \<Rightarrow> Inr None
                   | Some dict \<Rightarrow>
                       (case value of
                          JInt k \<Rightarrow> Inr (resolve column_mappings em i k)
                        | JBool b \<Rightarrow> Inr (resolve column_mappings em i (if b then 1 else 0))
                        | JFloat f \<Rightarrow>
                            if float_less f (int (length dict)) then Inl TypeError else Inr None
                        | _ \<Rightarrow> Inl TypeError)))
         | EncodeScalar \<Rightarrow> Inl TypeError
         | EncodeStr t \<Rightarrow>
             (case data_id of
                None \<Rightarrow> Inl TypeError
              | Some did \<Rightarrow> if is_substring did t then Inl TypeError else Inr None)
         | EncodeElements xs \<Rightarrow>
             if (case data_id of None \<Rightarrow> JNull | Some did \<Rightarrow> JStr did) \<in> set xs
             then Inl TypeError else Inr None))"

fun decode_values ::
  "column_mapping list \<Rightarrow> encode_maps_value \<Rightarrow> (nat \<times> json) list \<Rightarrow> flat_row \<Rightarrow> error + flat_row"
where
  "decode_values column_mappings encode_maps [] obj = Inr obj"
| "decode_values column_mappings encode_maps ((i, value) # rest) obj =
     (case resolve_value column_mappings encode_maps i value of
        Inl e \<Rightarrow> Inl e
      | Inr None \<Rightarrow> decode_values column_mappings encode_maps rest obj
      | Inr (Some (n, v)) \<Rightarrow> decode_values column_mappings encode_maps rest (obj(n \<mapsto> v)))"

subsection \<open>Normalizer: owner remap, filter, shape\<close>

definition owner_map :: "string \<rightharpoonup> string" where
  "owner_map = [''4'' \<mapsto> ''SHOTTYS'', ''100314'' \<mapsto> ''MARKETING'', ''100374'' \<mapsto> ''IMPACKFUL'']"

definition map_owner :: "flat_row \<Rightarrow> flat_row" where
  "map_owner obj =
     (case obj (Some ''Owner'') of
        None \<Rightarrow> obj
      | Some owner_value \<Rightarrow>
          (case owner_map owner_value of
             None \<Rightarrow> obj
           | Some mapped \<Rightarrow> obj(Some ''Owner'' \<mapsto> mapped)))"

text \<open>
  The condition of the filter, evaluated left to right with the short circuit of
  \<^verbatim>\<open>and\<close>: \<^verbatim>\<open>obj['Owner']\<close> is evaluated only when the date matches, and raises
  KeyError when the row has no owner.
\<close>

definition date_filter :: "string \<Rightarrow> flat_row \<Rightarrow> error + bool" where
  "date_filter date_now obj =
     (case obj (Some ''Date'') of
        None \<Rightarrow> Inr False
      | Some dt \<Rightarrow>
          if \<not> startswith dt date_now then Inr False
          else (case obj (Some ''Owner'') of
                  None \<Rightarrow> Inl KeyError
                | Some ow \<Rightarrow> Inr (ow \<in> set [''SHOTTYS'', ''IMPACKFUL''])))"

text \<open>
  The loop over the keys of the slice data. Its state is the list \<^verbatim>\<open>output\<close> and the
  variable \<^verbatim>\<open>obj\<close>, which is unbound (\<open>None\<close>) until the first key that parses and
  which the code after the loop still reads.
\<close>

fun rows_loop ::
  "(string \<Rightarrow> loads_result) \<Rightarrow> column_mapping list \<Rightarrow> encode_maps_value \<Rightarrow> string \<Rightarrow>
     string list \<Rightarrow> flat_row list \<times> flat_row option \<Rightarrow> error + flat_row list \<times> flat_row option"
where
  "rows_loop py_loads column_mappings encode_maps date_now [] st = Inr st"
| "rows_loop py_loads column_mappings encode_maps date_now (item_key # rest) (output, last_obj) =
     (if \<not> startswith item_key ''['' then
        rows_loop py_loads column_mappings encode_maps date_now rest (output, last_obj)
      else
        (case py_loads item_key of
           JSONDecodeError \<Rightarrow>
             rows_loop py_loads column_mappings encode_maps date_now rest (output, last_obj)
         | Raised e \<Rightarrow> Inl e
         | Parsed item_arr \<Rightarrow>
             (case decode_values column_mappings encode_maps (enumerate 0 item_arr) Map.empty of
                Inl e \<Rightarrow> Inl e
              | Inr decoded \<Rightarrow>
                  (let obj = map_owner decoded in
                     (case date_filter date_now obj of
                        Inl e \<Rightarrow> Inl e
                      | Inr keep \<Rightarrow>
                          rows_loop py_loads column_mappings encode_maps date_now rest
                            (if keep then output @ [obj] else output, Some obj))))))"

record inventory_item =
  key :: string
  date :: string
  item :: string
  area :: "string option"
  qty :: rat
  actual_value :: rat
  actual_unit_cost :: rat
  gl_group :: "string option"
  type :: string
  unit :: string

text \<open>\<^verbatim>\<open>d.get(k, default)\<close> on a flat row.\<close>

definition get_default :: "flat_row \<Rightarrow> string \<Rightarrow> string \<Rightarrow> string" where
  "get_default d k dflt = (case d (Some k) of None \<Rightarrow> dflt | Some v \<Rightarrow> v)"

text \<open>
  \<^verbatim>\<open>float(d.get(k, 0)) if d.get(k) else 0\<close>: zero for a missing key and for the empty
  string, which is falsy; any other string goes to \<^verbatim>\<open>float\<close>, which raises ValueError
  when it does not parse.
\<close>

definition float_or_zero :: "(string \<Rightarrow> rat option) \<Rightarrow> string option \<Rightarrow> error + rat" where
  "float_or_zero py_float x =
     (case x of
        None \<Rightarrow> Inr 0
      | Some s \<Rightarrow>
          if s = [] then Inr 0
          else (case py_float s of None \<Rightarrow> Inl ValueError | Some r \<Rightarrow> Inr r))"

text \<open>
  The body of the loop that shapes a kept row \<open>d\<close>. The key is built from
  \<^verbatim>\<open>obj['Owner']\<close>, where \<^verbatim>\<open>obj\<close> is the variable left by the loop over the rows.
\<close>

definition make_item ::
  "(string \<Rightarrow> rat option) \<Rightarrow> flat_row option \<Rightarrow> flat_row \<Rightarrow> error + inventory_item"
where
  "make_item py_float last_obj d =
     (let item_code = get_default d ''ItemCode'' [];
          sublot = get_default d ''Sublot'' ''0''
      in case last_obj of
           None \<Rightarrow> Inl NameError
         | Some obj \<Rightarrow>
             (case obj (Some ''Owner'') of
                None \<Rightarrow> Inl KeyError
              | Some obj_owner \<Rightarrow>
                  (let k = item_code @ ''-'' @ sublot @ ''-'' @ obj_owner @ ''-''
                             @ take 10 (get_default d ''Date'' []);
                       dt = take 10 (get_default d ''Date'' [])
                   in case float_or_zero py_float (d (Some ''Qty'')) of
                        Inl e \<Rightarrow> Inl e
                      | Inr q \<Rightarrow>
                          (case float_or_zero py_float (d (Some ''ActualValue'')) of
                             Inl e \<Rightarrow> Inl e
                           | Inr av \<Rightarrow>
                               Inr \<lparr> key = k, date = dt, item = item_code,
                                     area = d (Some ''Owner''), qty = q, actual_value = av,
                                     actual_unit_cost = (if q \<noteq> 0 \<and> av \<noteq> 0 then av / q else 0),
                                     gl_group = d (Some ''GLGroup''),
                                     type = get_default d ''Type'' [],
                                     unit = get_default d ''Unit'' [] \<rparr>))))"

fun items_loop ::
  "(string \<Rightarrow> rat option) \<Rightarrow> flat_row option \<Rightarrow> flat_row list \<Rightarrow> error + inventory_item list"
where
  "items_loop py_float last_obj [] = Inr []"
| "items_loop py_float last_obj (d # ds) =
     (case make_item py_float last_obj d of
        Inl e \<Rightarrow> Inl e
      | Inr it \<Rightarrow>
          (case items_loop py_float last_obj ds of
             Inl e \<Rightarrow> Inl e
           | Inr its \<Rightarrow> Inr (it # its)))"

subsection \<open>Aggregator\<close>

text \<open>
  The branch for a key already in \<^verbatim>\<open>aggregated\<close>: both sums are stored, then the
  quotient is taken, and Python's division raises ZeroDivisionError on a zero divisor.
\<close>

definition merge_item :: "inventory_item \<Rightarrow> inventory_item \<Rightarrow> error + inventory_item" where
  "merge_item acc it =
     (let q = qty acc + qty it; av = actual_value acc + actual_value it
      in if q = 0 then Inl ZeroDivisionError
         else Inr (acc\<lparr>qty := q, actual_value := av, actual_unit_cost := av / q\<rparr>))"

text \<open>
  \<^verbatim>\<open>aggregated\<close> is an association list in order of insertion: \<open>AList.update\<close>
  replaces the value of a key in place and appends a new key at the end, as a Python
  dictionary does.
\<close>

fun aggregate_loop ::
  "inventory_item list \<Rightarrow> (string \<times> inventory_item) list \<Rightarrow> error + (string \<times> inventory_item) list"
where
  "aggregate_loop [] aggregated = Inr aggregated"
| "aggregate_loop (it # rest) aggregated =
     (case map_of aggregated (key it) of
        Some acc \<Rightarrow>
          (case merge_item acc it of
             Inl e \<Rightarrow> Inl e
           | Inr acc' \<Rightarrow> aggregate_loop rest (AList.update (key it) acc' aggregated))
      | None \<Rightarrow> aggregate_loop rest (AList.update (key it) it aggregated))"

definition aggregate :: "inventory_item list \<Rightarrow> error + inventory_item list" where
  "aggregate inventory_items =
     (case aggregate_loop inventory_items [] of
        Inl e \<Rightarrow> Inl e
      | Inr aggregated \<Rightarrow> Inr (map snd aggregated))"

subsection \<open>The transform\<close>

text \<open>
  The lines that take the sections out of the payload, with the exception each raises on
  a value of another type than it expects.
\<close>

definition empty_data_storage :: data_storage where
  "empty_data_storage = \<lparr> Slices = None, EncodeMaps = None \<rparr>"

text \<open>\<^verbatim>\<open>dashboard_data.get('ItemData', {}).get('DataStorageDTO', {})\<close>.\<close>

definition get_data_storage :: "dashboard_data \<Rightarrow> error + data_storage dict_value" where
  "get_data_storage dd =
     (case (case ItemData dd of None \<Rightarrow> Dict \<lparr> DataStorageDTO = None \<rparr> | Some v \<Rightarrow> v) of
        NotDict \<Rightarrow> Inl AttributeError
      | Dict idt \<Rightarrow>
          Inr (case DataStorageDTO idt of None \<Rightarrow> Dict empty_data_storage | Some v \<Rightarrow> v))"

text \<open>
  \<^verbatim>\<open>x[0]\<close> on the value of \<^verbatim>\<open>Slices\<close>: the first element of a list, IndexError on
  an empty list or string, TypeError on a scalar, KeyError on a dictionary, whose keys
  are strings; the first character of a string is a string, not a dictionary.
\<close>

definition first_item :: "'a dict_value list_value \<Rightarrow> error + 'a dict_value" where
  "first_item xs =
     (case xs of
        Elements [] \<Rightarrow> Inl IndexError
      | Elements (x # _) \<Rightarrow> Inr x
      | Scalar \<Rightarrow> Inl TypeError
      | Str s \<Rightarrow> if s = [] then Inl IndexError else Inr NotDict
      | Keys ks \<Rightarrow> Inl KeyError)"

text \<open>
  \<^verbatim>\<open>data_storage.get('Slices', [{}])[0].get('Data', {})\<close>, on a \<^verbatim>\<open>data_storage\<close>
  that is a dictionary.
\<close>

definition get_slices_data :: "data_storage \<Rightarrow> error + string list dict_value" where
  "get_slices_data ds =
     (case first_item (case Slices ds of None \<Rightarrow> Elements [Dict \<lparr> Data = None \<rparr>] | Some v \<Rightarrow> v) of
        Inl e \<Rightarrow> Inl e
      | Inr NotDict \<Rightarrow> Inl AttributeError
      | Inr (Dict slice0) \<Rightarrow> Inr (case Data slice0 of None \<Rightarrow> Dict [] | Some v \<Rightarrow> v))"

text \<open>\<^verbatim>\<open>data_storage.get('EncodeMaps', {})\<close>.\<close>

definition get_encode_maps :: "data_storage \<Rightarrow> encode_maps_value" where
  "get_encode_maps ds = (case EncodeMaps ds of None \<Rightarrow> EncodeDict Map.empty | Some v \<Rightarrow> v)"

text \<open>\<^verbatim>\<open>dashboard_data.get('ViewModel', {}).get('Columns', [])\<close>.\<close>

definition get_columns :: "dashboard_data \<Rightarrow> error + column dict_value list_value" where
  "get_columns dd =
     (case (case ViewModel dd of None \<Rightarrow> Dict \<lparr> Columns = None \<rparr> | Some v \<Rightarrow> v) of
        NotDict \<Rightarrow> Inl AttributeError
      | Dict vm \<Rightarrow> Inr (case Columns vm of None \<Rightarrow> Elements [] | Some v \<Rightarrow> v))"

text \<open>
  The comprehension over \<^verbatim>\<open>columns\<close>. Iterating a scalar raises TypeError; iterating a
  string or a dictionary gives strings, on which \<^verbatim>\<open>col.get\<close> raises AttributeError, as
  it does on an element of a list that is not a dictionary.
\<close>

fun mappings_of :: "column dict_value list \<Rightarrow> error + column_mapping list" where
  "mappings_of [] = Inr []"
| "mappings_of (NotDict # cols) = Inl AttributeError"
| "mappings_of (Dict col # cols) =
     (case mappings_of cols of
        Inl e \<Rightarrow> Inl e
      | Inr ms \<Rightarrow> Inr (\<lparr> name = Caption col, dataId = DataId col \<rparr> # ms))"

definition get_column_mappings :: "column dict_value list_value \<Rightarrow> error + column_mapping list" where
  "get_column_mappings columns =
     (case columns of
        Elements cols \<Rightarrow> mappings_of cols
      | Scalar \<Rightarrow> Inl TypeError
      | Str s \<Rightarrow> if s = [] then Inr [] else Inl AttributeError
      | Keys ks \<Rightarrow> if ks = [] then Inr [] else Inl AttributeError)"

text \<open>
  \<^verbatim>\<open>transform_dashboard_data\<close>, given what \<^verbatim>\<open>json.loads\<close> and \<^verbatim>\<open>float\<close> compute.
  The statements follow the order of the source, so that the first exception is the one
  raised.
\<close>

definition transform_dashboard_data_with ::
  "(string \<Rightarrow> loads_result) \<Rightarrow> (string \<Rightarrow> rat option) \<Rightarrow> string \<Rightarrow> dashboard_data \<Rightarrow>
     error + inventory_item list"
where
  "transform_dashboard_data_with py_loads py_float date_now dd =
     (case get_data_storage dd of
        Inl e \<Rightarrow> Inl e
      | Inr NotDict \<Rightarrow> Inl AttributeError
      | Inr (Dict data_storage) \<Rightarrow>
          (case get_slices_data data_storage of
             Inl e \<Rightarrow> Inl e
           | Inr slices_data \<Rightarrow>
               (let encode_maps = get_encode_maps data_storage
                in case get_columns dd of
                     Inl e \<Rightarrow> Inl e
                   | Inr columns \<Rightarrow>
                       (case get_column_mappings columns of
                          Inl e \<Rightarrow> Inl e
                        | Inr column_mappings \<Rightarrow>
                            (case slices_data of
                               NotDict \<Rightarrow> Inl AttributeError
                             | Dict item_keys \<Rightarrow>
                                 (case rows_loop py_loads column_mappings encode_maps date_now
                                         item_keys ([], None) of
                                    Inl e \<Rightarrow> Inl e
                                  | Inr (output, last_obj) \<Rightarrow>
                                      (case items_loop py_float last_obj output of
                                         Inl e \<Rightarrow> Inl e
                                       | Inr inventory_items \<Rightarrow> aggregate inventory_items)))))))"

text \<open>The transform of the example runs.\<close>

definition transform_dashboard_data :: "string \<Rightarrow> dashboard_data \<Rightarrow> error + inventory_item list" where
  "transform_dashboard_data date_now dd =
     transform_dashboard_data_with loads_ints float_py date_now dd"

subsection \<open>The command line\<close>

text \<open>
  \<^verbatim>\<open>main\<close> calls three collaborators. What each does is its outcome: it returns a
  value or raises. \<open>Exception\<close> stands for any exception derived from Python's
  \<^verbatim>\<open>Exception\<close>, \<open>OtherBaseException\<close> for one that is neither that nor
  KeyboardInterrupt (SystemExit, GeneratorExit).
\<close>

datatype raised = KeyboardInterrupt | Exception | OtherBaseException

datatype 'a outcome = Returns 'a | Raises raised

text \<open>
  The environment of a run: the variable \<^verbatim>\<open>DATABASE_URL\<close>, the outcome of connecting
  and querying the version in \<^verbatim>\<open>test_connection\<close>, the outcome of the scrape, and the
  outcome of the upload of a given list.
\<close>

record env =
  database_url :: "string option"
  connect :: "unit outcome"
  scrape_markov_inventory :: "inventory_item list outcome"
  upload_inventory_to_postgres :: "inventory_item list \<Rightarrow> nat outcome"

definition test_connection :: "env \<Rightarrow> bool outcome" where
  "test_connection e =
     (case database_url e of
        None \<Rightarrow> Returns False
      | Some url \<Rightarrow>
          if url = [] then Returns False
          else (case connect e of
                  Returns u \<Rightarrow> Returns True
                | Raises Exception \<Rightarrow> Returns False
                | Raises x \<Rightarrow> Raises x))"

datatype step = TestConnection | Scrape | Upload

text \<open>The two \<^verbatim>\<open>except\<close> clauses of \<^verbatim>\<open>main\<close>; any other exception propagates.\<close>

definition handler :: "raised \<Rightarrow> raised + int" where
  "handler x =
     (case x of
        KeyboardInterrupt \<Rightarrow> Inr 130
      | Exception \<Rightarrow> Inr 1
      | OtherBaseException \<Rightarrow> Inl OtherBaseException)"

text \<open>
  \<^verbatim>\<open>main\<close> gives the collaborators it called, in order, and the value it returns,
  which \<^verbatim>\<open>sys.exit\<close> makes the exit code of the process.
\<close>

definition main :: "env \<Rightarrow> step list \<times> (raised + int)" where
  "main e =
     (case test_connection e of
        Raises x \<Rightarrow> ([TestConnection], handler x)
      | Returns ok \<Rightarrow>
          if \<not> ok then ([TestConnection], Inr 1)
          else (case scrape_markov_inventory e of
                  Raises x \<Rightarrow> ([TestConnection, Scrape], handler x)
                | Returns inventory_data \<Rightarrow>
                    if inventory_data = [] then ([TestConnection, Scrape], Inr 0)
                    else (case upload_inventory_to_postgres e inventory_data of
                            Raises x \<Rightarrow> ([TestConnection, Scrape, Upload], handler x)
                          | Returns records_uploaded \<Rightarrow>
                              ([TestConnection, Scrape, Upload], Inr 0))))"

subsection \<open>Example inputs\<close>

text \<open>
  A payload with four columns. The row keys index the dictionaries below: owner
  \<^verbatim>\<open>4\<close> (SHOTTYS) or \<^verbatim>\<open>100314\<close> (MARKETING), one date, one item code, and a
  quantity among \<^verbatim>\<open>5\<close>, \<^verbatim>\<open>-5\<close> and \<^verbatim>\<open>abc\<close>.
\<close>

definition example_columns :: "column list" where
  "example_columns =
     [\<lparr>Caption = Some ''Owner'', DataId = Some ''DataItem0''\<rparr>,
      \<lparr>Caption = Some ''Date'', DataId = Some ''DataItem1''\<rparr>,
      \<lparr>Caption = Some ''ItemCode'', DataId = Some ''DataItem2''\<rparr>,
      \<lparr>Caption = Some ''Qty'', DataId = Some ''DataItem3''\<rparr>]"

definition example_encode_maps :: "string \<rightharpoonup> string list" where
  "example_encode_maps =
     [''DataItem0'' \<mapsto> [''4'', ''100314''],
      ''DataItem1'' \<mapsto> [''2024-01-02T00:00:00''],
      ''DataItem2'' \<mapsto> [''X1''],
      ''DataItem3'' \<mapsto> [''5'', ''-5'', ''abc'']]"

definition example_payload :: "string list \<Rightarrow> dashboard_data" where
  "example_payload row_keys =
     \<lparr>ItemData = Some (Dict \<lparr>DataStorageDTO = Some (Dict
         \<lparr>Slices = Some (Elements [Dict \<lparr>Data = Some (Dict row_keys)\<rparr>]),
          EncodeMaps = Some (EncodeDict example_encode_maps)\<rparr>)\<rparr>),
      ViewModel = Some (Dict \<lparr>Columns = Some (Elements (map Dict example_columns))\<rparr>)\<rparr>"

text \<open>Two candidates with the same key and the quantities 5 and -5, and a third key.\<close>

definition example_item :: "string \<Rightarrow> string \<Rightarrow> rat \<Rightarrow> rat \<Rightarrow> inventory_item" where
  "example_item k g q av =
     \<lparr>key = k, date = ''2024-01-02'', item = ''X1'', area = Some ''SHOTTYS'', qty = q,
      actual_value = av, actual_unit_cost = (if q \<noteq> 0 \<and> av \<noteq> 0 then av / q else 0),
      gl_group = Some g, type = ''RM'', unit = ''EA''\<rparr>"

text \<open>A run of \<^verbatim>\<open>main\<close> with a connection string, given the three outcomes.\<close>

definition example_env ::
  "unit outcome \<Rightarrow> inventory_item list outcome \<Rightarrow> nat outcome \<Rightarrow> env"
where
  "example_env c s u =
     \<lparr>database_url = Some ''postgresql://db'', connect = c,
      scrape_markov_inventory = s, upload_inventory_to_postgres = (\<lambda>inventory_data. u)\<rparr>"

subsection \<open>Predicates of the statements\<close>

text \<open>A record with its three numeric fields blanked: what aggregation must not change.\<close>

definition non_numeric :: "inventory_item \<Rightarrow> inventory_item" where
  "non_numeric r = r\<lparr>qty := 0, actual_value := 0, actual_unit_cost := 0\<rparr>"

text \<open>
  Every section that is present is of the type the code expects: the item data, the data
  storage, the first slice, its data and the encode maps are dictionaries, and a
  \<^verbatim>\<open>Slices\<close> that is present is a list with a first element.
\<close>

definition storage_ok :: "dashboard_data \<Rightarrow> bool" where
  "storage_ok dd =
     (case ItemData dd of
        None \<Rightarrow> True
      | Some NotDict \<Rightarrow> False
      | Some (Dict idt) \<Rightarrow>
          (case DataStorageDTO idt of
             None \<Rightarrow> True
           | Some NotDict \<Rightarrow> False
           | Some (Dict ds) \<Rightarrow>
               (case Slices ds of
                  None \<Rightarrow> True
                | Some (Elements (Dict slice0 # _)) \<Rightarrow> Data slice0 \<noteq> Some NotDict
                | Some _ \<Rightarrow> False) \<and>
               (case EncodeMaps ds of
                  None \<Rightarrow> True
                | Some (EncodeDict em) \<Rightarrow> True
                | Some _ \<Rightarrow> False)))"

text \<open>The view model is a dictionary and the columns are a list of dictionaries.\<close>

definition columns_ok :: "dashboard_data \<Rightarrow> bool" where
  "columns_ok dd =
     (case ViewModel dd of
        None \<Rightarrow> True
      | Some NotDict \<Rightarrow> False
      | Some (Dict vm) \<Rightarrow>
          (case Columns vm of
             None \<Rightarrow> True
           | Some (Elements cols) \<Rightarrow> list_all (\<lambda>col. col \<noteq> NotDict) cols
           | Some _ \<Rightarrow> False))"

definition sections_ok :: "dashboard_data \<Rightarrow> bool" where
  "sections_ok dd = (storage_ok dd \<and> columns_ok dd)"

text \<open>
  A payload that lacks one of the sections the transform reads, the key being absent:
  \<^verbatim>\<open>ItemData\<close>, \<^verbatim>\<open>DataStorageDTO\<close>, \<^verbatim>\<open>Slices\<close>, \<^verbatim>\<open>EncodeMaps\<close> or the
  \<^verbatim>\<open>Data\<close> of the first slice; \<^verbatim>\<open>ViewModel\<close> or \<^verbatim>\<open>Columns\<close>.
\<close>

definition storage_missing :: "dashboard_data \<Rightarrow> bool" where
  "storage_missing dd =
     (case ItemData dd of
        None \<Rightarrow> True
      | Some NotDict \<Rightarrow> False
      | Some (Dict idt) \<Rightarrow>
          (case DataStorageDTO idt of
             None \<Rightarrow> True
           | Some NotDict \<Rightarrow> False
           | Some (Dict ds) \<Rightarrow>
               Slices ds = None \<or> EncodeMaps ds = None \<or>
               (case Slices ds of
                  Some (Elements (Dict slice0 # _)) \<Rightarrow> Data slice0 = None
                | _ \<Rightarrow> False)))"

definition columns_missing :: "dashboard_data \<Rightarrow> bool" where
  "columns_missing dd =
     (case ViewModel dd of
        None \<Rightarrow> True
      | Some NotDict \<Rightarrow> False
      | Some (Dict vm) \<Rightarrow> Columns vm = None)"

definition missing_section :: "dashboard_data \<Rightarrow> bool" where
  "missing_section dd = (storage_missing dd \<or> columns_missing dd)"

text \<open>The row keys: the keys of the \<^verbatim>\<open>Data\<close> of the first slice, when all of it is there.\<close>

definition row_keys :: "dashboard_data \<Rightarrow> string list" where
  "row_keys dd =
     (case ItemData dd of
        Some (Dict idt) \<Rightarrow>
          (case DataStorageDTO idt of
             Some (Dict ds) \<Rightarrow>
               (case Slices ds of
                  Some (Elements (Dict slice0 # _)) \<Rightarrow>
                    (case Data slice0 of Some (Dict item_keys) \<Rightarrow> item_keys | _ \<Rightarrow> [])
                | _ \<Rightarrow> [])
           | _ \<Rightarrow> [])
      | _ \<Rightarrow> [])"

section \<open>Properties\<close>

subsection \<open>Decoder\<close>

lemma startswith_take: "startswith s p \<longleftrightarrow> take (length p) s = p"
  by (induction s p rule: startswith.induct) auto

text \<open>What \<open>resolve\<close> computes: the index may be negative, down to minus the length.\<close>

lemma resolve_Some_iff:
  "resolve cms em i value = Some (n, v) \<longleftrightarrow>
     value \<noteq> - 1 \<and> i < length cms \<and>
     (\<exists>data_id dict. dataId (cms ! i) = Some data_id \<and> em data_id = Some dict \<and>
        - int (length dict) \<le> value \<and> value < int (length dict) \<and>
        n = name (cms ! i) \<and>
        v = dict ! nat (if value < 0 then int (length dict) + value else value))"
  by (auto simp: resolve_def getitem_def Let_def split: option.splits sum.splits if_splits)

text \<open>
  On an integer index and a dictionary of lists the pass with run-time types is
  \<open>resolve\<close>, and the decoding of an array of integers is \<open>decode_row\<close>.
\<close>

lemma resolve_value_int:
  "resolve_value cms (EncodeDict em) i (JInt k) = Inr (resolve cms em i k)"
  by (simp add: resolve_value_def resolve_def is_minus_one_def Let_def split: option.splits)

lemma decode_values_ints:
  "decode_values cms (EncodeDict em) (enumerate n (map JInt ks)) obj =
     Inr (fold (\<lambda>(i, value) obj. case resolve cms em i value of None \<Rightarrow> obj | Some (m, v) \<Rightarrow> obj(m \<mapsto> v))
            (enumerate n ks) obj)"
  by (induction ks arbitrary: n obj) (auto simp: resolve_value_int split: option.splits)

lemma decode_values_decode_row:
  "decode_values cms (EncodeDict em) (enumerate 0 (map JInt ks)) Map.empty = Inr (decode_row cms em ks)"
  by (simp add: decode_values_ints decode_row_def)


text \<open>
  C6. The claim: a field is added only when the index is a position of the dictionary,
  \<open>0 \<le> index < length\<close>, and any other index but -1 is skipped. The code checks only the
  upper bound, and Python's indexing counts a negative index from the end: with the row
  array \<^verbatim>\<open>[-2]\<close> and the owner dictionary of two entries, the field Owner is added with
  the first entry.
\<close>

theorem resolve_negative_index:
  "resolve [\<lparr>name = Some ''Owner'', dataId = Some ''DataItem0''\<rparr>] example_encode_maps 0 (- 2)
     = Some (Some ''Owner'', ''4'') \<and>
   decode_row [\<lparr>name = Some ''Owner'', dataId = Some ''DataItem0''\<rparr>] example_encode_maps [- 2]
     (Some ''Owner'') = Some ''4''"
  by code_simp



subsection \<open>Normalizer\<close>

text \<open>The filter keeps a row exactly when its date starts with \<^verbatim>\<open>date_now\<close> and its
  owner is one of the two allowed names; it raises exactly when the date matches and the
  row has no owner.\<close>

lemma date_filter_keeps_iff:
  "date_filter date_now obj = Inr True \<longleftrightarrow>
     (\<exists>dt ow. obj (Some ''Date'') = Some dt \<and> take (length date_now) dt = date_now \<and>
        obj (Some ''Owner'') = Some ow \<and> (ow = ''SHOTTYS'' \<or> ow = ''IMPACKFUL''))"
  by (auto simp: date_filter_def startswith_take split: option.splits)

lemma date_filter_raises_iff:
  "date_filter date_now obj = Inl e \<longleftrightarrow>
     e = KeyError \<and> obj (Some ''Owner'') = None \<and>
     (\<exists>dt. obj (Some ''Date'') = Some dt \<and> take (length date_now) dt = date_now)"
  by (auto simp: date_filter_def startswith_take split: option.splits)

text \<open>
  C4. The claim: a row is kept only if its date matches and its owner is SHOTTYS or
  IMPACKFUL, and a row whose date matches but which has no Owner field is excluded
  without raising. The code guards \<^verbatim>\<open>'Date' in obj\<close> but reads \<^verbatim>\<open>obj['Owner']\<close>
  unguarded: a row with a matching date and no owner raises KeyError, which ends the
  whole transform (row key \<^verbatim>\<open>[-1,0,0,0]\<close> of the example payload).
\<close>

theorem date_filter_missing_owner:
  "date_filter ''2024-01-02'' [Some ''Date'' \<mapsto> ''2024-01-02T00:00:00''] = Inl KeyError \<and>
   transform_dashboard_data ''2024-01-02'' (example_payload [''[-1,0,0,0]'']) = Inl KeyError"
  by code_simp

text \<open>The key of a candidate has the owner of \<^verbatim>\<open>obj\<close>; its area has the owner of the row.\<close>

lemma make_item_key:
  "make_item py_float (Some obj) d = Inr it \<Longrightarrow>
   \<exists>obj_owner. obj (Some ''Owner'') = Some obj_owner \<and>
     key it = get_default d ''ItemCode'' [] @ ''-'' @ get_default d ''Sublot'' ''0'' @ ''-''
                @ obj_owner @ ''-'' @ take 10 (get_default d ''Date'' []) \<and>
     area it = d (Some ''Owner'')"
  by (auto simp: make_item_def Let_def split: option.splits sum.splits)

text \<open>
  C1. The claim: the composite key of a candidate is item code, sublot, area and day of
  that same row, the area being the row's own remapped owner. The code builds the key
  from \<^verbatim>\<open>obj['Owner']\<close>, and \<^verbatim>\<open>obj\<close> is the last row the decoding loop handled,
  kept or not. With a SHOTTYS row followed by a MARKETING row of the same day, the one
  candidate has area SHOTTYS and a key that says MARKETING.
\<close>

theorem key_uses_last_row_owner:
  "transform_dashboard_data ''2024-01-02'' (example_payload [''[0,0,0,0]'', ''[1,0,0,0]'']) =
     Inr [\<lparr>key = ''X1-0-MARKETING-2024-01-02'', date = ''2024-01-02'', item = ''X1'',
           area = Some ''SHOTTYS'', qty = 5, actual_value = 0, actual_unit_cost = 0,
           gl_group = None, type = [], unit = []\<rparr>]"
  by code_simp

text \<open>
  C3, as stated, fails: a row that passes the filter and whose Qty is the string
  \<^verbatim>\<open>abc\<close>, which \<^verbatim>\<open>float\<close> rejects, makes the shaping raise ValueError, and with it
  the transform.
\<close>

theorem make_item_unparsable_counterexample:
  "date_filter ''2024-01-02''
     [Some ''Owner'' \<mapsto> ''SHOTTYS'', Some ''Date'' \<mapsto> ''2024-01-02T00:00:00'', Some ''Qty'' \<mapsto> ''abc'']
     = Inr True \<and>
   make_item float_py
     (Some [Some ''Owner'' \<mapsto> ''SHOTTYS'', Some ''Date'' \<mapsto> ''2024-01-02T00:00:00'', Some ''Qty'' \<mapsto> ''abc''])
     [Some ''Owner'' \<mapsto> ''SHOTTYS'', Some ''Date'' \<mapsto> ''2024-01-02T00:00:00'', Some ''Qty'' \<mapsto> ''abc'']
     = Inl ValueError \<and>
   transform_dashboard_data ''2024-01-02'' (example_payload [''[0,0,0,2]'']) = Inl ValueError"
  by code_simp

text \<open>
  C3, amended. Whatever \<^verbatim>\<open>float\<close> computes, and when the key can be built (the last
  decoded row has an owner): a Qty that is absent or the empty string is not handed to
  \<^verbatim>\<open>float\<close> and gives the quantity 0. The candidate is produced when ActualValue is
  absent or empty as well, and when ActualValue is a string on which \<^verbatim>\<open>float\<close> returns
  a number; the only exception left is the ValueError of \<^verbatim>\<open>float\<close> on a non-empty
  ActualValue. The same holds with the two fields exchanged.
\<close>

theorem make_item_absent_numeric:
  assumes "obj (Some ''Owner'') = Some ow"
  shows
    "((d (Some ''Qty'') = None \<or> d (Some ''Qty'') = Some []) \<and>
      (d (Some ''ActualValue'') = None \<or> d (Some ''ActualValue'') = Some []) \<longrightarrow>
        (\<exists>it. make_item py_float (Some obj) d = Inr it \<and> qty it = 0 \<and> actual_value it = 0)) \<and>
     ((d (Some ''Qty'') = None \<or> d (Some ''Qty'') = Some []) \<and>
      d (Some ''ActualValue'') = Some s \<and> s \<noteq> [] \<and> py_float s = Some av \<longrightarrow>
        (\<exists>it. make_item py_float (Some obj) d = Inr it \<and> qty it = 0 \<and> actual_value it = av)) \<and>
     ((d (Some ''ActualValue'') = None \<or> d (Some ''ActualValue'') = Some []) \<and>
      d (Some ''Qty'') = Some s \<and> s \<noteq> [] \<and> py_float s = Some q \<longrightarrow>
        (\<exists>it. make_item py_float (Some obj) d = Inr it \<and> actual_value it = 0 \<and> qty it = q)) \<and>
     ((d (Some ''Qty'') = None \<or> d (Some ''Qty'') = Some []) \<and>
      make_item py_float (Some obj) d = Inl e \<longrightarrow>
        e = ValueError \<and>
        (\<exists>t. d (Some ''ActualValue'') = Some t \<and> t \<noteq> [] \<and> py_float t = None)) \<and>
     ((d (Some ''ActualValue'') = None \<or> d (Some ''ActualValue'') = Some []) \<and>
      make_item py_float (Some obj) d = Inl e \<longrightarrow>
        e = ValueError \<and>
        (\<exists>t. d (Some ''Qty'') = Some t \<and> t \<noteq> [] \<and> py_float t = None))"
  using assms
  by (auto simp: make_item_def float_or_zero_def Let_def split: option.splits if_splits)

text \<open>
  Two rows that pass the filter: one with an empty Qty and no ActualValue, one with no
  Qty and the ActualValue \<^verbatim>\<open>50\<close>.
\<close>

theorem make_item_absent_numeric_witness:
  "date_filter ''2024-01-02''
     [Some ''Owner'' \<mapsto> ''SHOTTYS'', Some ''Date'' \<mapsto> ''2024-01-02T00:00:00'', Some ''Qty'' \<mapsto> []]
     = Inr True \<and>
   (\<exists>it. make_item float_py
      (Some [Some ''Owner'' \<mapsto> ''SHOTTYS'', Some ''Date'' \<mapsto> ''2024-01-02T00:00:00'', Some ''Qty'' \<mapsto> []])
      [Some ''Owner'' \<mapsto> ''SHOTTYS'', Some ''Date'' \<mapsto> ''2024-01-02T00:00:00'', Some ''Qty'' \<mapsto> []]
      = Inr it \<and> qty it = 0 \<and> actual_value it = 0) \<and>
   date_filter ''2024-01-02''
     [Some ''Owner'' \<mapsto> ''SHOTTYS'', Some ''Date'' \<mapsto> ''2024-01-02T00:00:00'',
      Some ''ActualValue'' \<mapsto> ''50'']
     = Inr True \<and>
   (\<exists>it. make_item float_py
      (Some [Some ''Owner'' \<mapsto> ''SHOTTYS'', Some ''Date'' \<mapsto> ''2024-01-02T00:00:00'',
             Some ''ActualValue'' \<mapsto> ''50''])
      [Some ''Owner'' \<mapsto> ''SHOTTYS'', Some ''Date'' \<mapsto> ''2024-01-02T00:00:00'',
       Some ''ActualValue'' \<mapsto> ''50'']
      = Inr it \<and> qty it = 0 \<and> actual_value it = 50)"
proof -
  let ?d = "[Some ''Owner'' \<mapsto> ''SHOTTYS'', Some ''Date'' \<mapsto> ''2024-01-02T00:00:00'',
             Some ''Qty'' \<mapsto> []] :: flat_row"
  let ?d' = "[Some ''Owner'' \<mapsto> ''SHOTTYS'', Some ''Date'' \<mapsto> ''2024-01-02T00:00:00'',
              Some ''ActualValue'' \<mapsto> ''50''] :: flat_row"
  have keep: "date_filter ''2024-01-02'' ?d = Inr True"
    and keep': "date_filter ''2024-01-02'' ?d' = Inr True"
    by code_simp+
  have owner: "?d (Some ''Owner'') = Some ''SHOTTYS''"
    and owner': "?d' (Some ''Owner'') = Some ''SHOTTYS''"
    by simp_all
  have fifty: "float_py ''50'' = Some 50"
    by code_simp
  have empty: "(?d (Some ''Qty'') = None \<or> ?d (Some ''Qty'') = Some []) \<and>
      (?d (Some ''ActualValue'') = None \<or> ?d (Some ''ActualValue'') = Some [])"
    by simp
  have absent: "(?d' (Some ''Qty'') = None \<or> ?d' (Some ''Qty'') = Some []) \<and>
      ?d' (Some ''ActualValue'') = Some ''50'' \<and> ''50'' \<noteq> [] \<and> float_py ''50'' = Some 50"
    using fifty by simp
  from make_item_absent_numeric [where obj = ?d and d = ?d and py_float = float_py, OF owner] empty
  have 1: "\<exists>it. make_item float_py (Some ?d) ?d = Inr it \<and> qty it = 0 \<and> actual_value it = 0"
    by blast
  from make_item_absent_numeric
         [where obj = ?d' and d = ?d' and py_float = float_py and s = "''50''" and av = 50, OF owner']
       absent
  have 2: "\<exists>it. make_item float_py (Some ?d') ?d' = Inr it \<and> qty it = 0 \<and> actual_value it = 50"
    by blast
  from keep keep' 1 2 show ?thesis by blast
qed

subsection \<open>Aggregator\<close>

text \<open>The merge of a later candidate: the two sums and their quotient, or ZeroDivisionError
  when the summed quantity is zero.\<close>

lemma merge_item_sums:
  "merge_item acc it = Inr acc' \<longleftrightarrow>
     qty acc + qty it \<noteq> 0 \<and>
     acc' = acc\<lparr>qty := qty acc + qty it, actual_value := actual_value acc + actual_value it,
                actual_unit_cost := (actual_value acc + actual_value it) / (qty acc + qty it)\<rparr>"
  by (auto simp: merge_item_def Let_def)

lemma merge_item_raises_iff:
  "merge_item acc it = Inl e \<longleftrightarrow> e = ZeroDivisionError \<and> qty acc + qty it = 0"
  by (auto simp: merge_item_def Let_def)

lemma merge_item_non_numeric:
  "merge_item acc it = Inr acc' \<Longrightarrow> non_numeric acc' = non_numeric acc"
  by (auto simp: merge_item_def non_numeric_def Let_def split: if_splits)

lemma update_fresh: "k \<notin> fst ` set al \<Longrightarrow> AList.update k v al = al @ [(k, v)]"
  by (induction al) auto

text \<open>Invariants of the loop: the keys of \<^verbatim>\<open>aggregated\<close>, their distinctness, each
  record under its own key, and the first candidate of each key.\<close>

lemma aggregate_loop_keys:
  "aggregate_loop cs agg = Inr agg' \<Longrightarrow> fst ` set agg' = fst ` set agg \<union> key ` set cs"
proof (induction cs arbitrary: agg)
  case Nil
  then show ?case by simp
next
  case (Cons it rest)
  show ?case
  proof (cases "map_of agg (key it)")
    case None
    with Cons.prems have "aggregate_loop rest (AList.update (key it) it agg) = Inr agg'"
      by simp
    from Cons.IH [OF this] show ?thesis
      by (auto simp: dom_update)
  next
    case (Some acc)
    with Cons.prems obtain acc' where
      "aggregate_loop rest (AList.update (key it) acc' agg) = Inr agg'"
      by (auto split: sum.splits)
    from Cons.IH [OF this] Some show ?thesis
      by (auto simp: dom_update dest: map_of_SomeD intro: rev_image_eqI)
  qed
qed

lemma aggregate_loop_distinct:
  "aggregate_loop cs agg = Inr agg' \<Longrightarrow> distinct (map fst agg) \<Longrightarrow> distinct (map fst agg')"
proof (induction cs arbitrary: agg)
  case Nil
  then show ?case by simp
next
  case (Cons it rest)
  then show ?case
    by (auto split: option.splits sum.splits intro: distinct_update)
qed

lemma aggregate_loop_key_of:
  "aggregate_loop cs agg = Inr agg' \<Longrightarrow>
   (\<And>k r. map_of agg k = Some r \<Longrightarrow> key r = k) \<Longrightarrow>
   map_of agg' k = Some r \<Longrightarrow> key r = k"
proof (induction cs arbitrary: agg)
  case Nil
  then show ?case by simp
next
  case (Cons it rest)
  show ?case
  proof (cases "map_of agg (key it)")
    case None
    with Cons.prems(1) have step: "aggregate_loop rest (AList.update (key it) it agg) = Inr agg'"
      by simp
    show ?thesis
      by (rule Cons.IH [OF step _ Cons.prems(3)])
         (auto simp: update_conv' split: if_splits dest: Cons.prems(2))
  next
    case (Some acc)
    with Cons.prems(1) obtain acc' where m: "merge_item acc it = Inr acc'"
      and step: "aggregate_loop rest (AList.update (key it) acc' agg) = Inr agg'"
      by (auto split: sum.splits)
    have "key acc = key it" using Some Cons.prems(2) by blast
    moreover have "key acc' = key acc"
      using m by (auto simp: merge_item_def Let_def split: if_splits)
    ultimately have "key acc' = key it" by simp
    then show ?thesis
      by (intro Cons.IH [OF step _ Cons.prems(3)])
         (auto simp: update_conv' split: if_splits dest: Cons.prems(2))
  qed
qed

lemma aggregate_loop_first:
  "aggregate_loop cs agg = Inr agg' \<Longrightarrow> map_of agg' k = Some r' \<Longrightarrow>
   (case map_of agg k of
      Some r \<Rightarrow> non_numeric r' = non_numeric r
    | None \<Rightarrow> (\<exists>c. find (\<lambda>c. key c = k) cs = Some c \<and> non_numeric r' = non_numeric c))"
proof (induction cs arbitrary: agg)
  case Nil
  then show ?case by simp
next
  case (Cons it rest)
  show ?case
  proof (cases "map_of agg (key it)")
    case None
    with Cons.prems(1) have step: "aggregate_loop rest (AList.update (key it) it agg) = Inr agg'"
      by simp
    from Cons.IH [OF step Cons.prems(2)] None show ?thesis
      by (auto simp: update_conv' split: option.splits if_splits)
  next
    case (Some acc)
    with Cons.prems(1) obtain acc' where m: "merge_item acc it = Inr acc'"
      and step: "aggregate_loop rest (AList.update (key it) acc' agg) = Inr agg'"
      by (auto split: sum.splits)
    from Cons.IH [OF step Cons.prems(2)] Some merge_item_non_numeric [OF m] show ?thesis
      by (auto simp: update_conv' split: option.splits if_splits)
  qed
qed

lemma aggregate_loop_replay:
  "distinct (map fst (xs @ ys)) \<Longrightarrow> \<forall>(k, r) \<in> set ys. key r = k \<Longrightarrow>
   aggregate_loop (map snd ys) xs = Inr (xs @ ys)"
proof (induction ys arbitrary: xs)
  case Nil
  then show ?case by simp
next
  case (Cons p ys)
  obtain k r where p: "p = (k, r)" by (cases p)
  with Cons.prems have kr: "key r = k" and fresh: "k \<notin> fst ` set xs" by auto
  then have none: "map_of xs (key r) = None"
    by (simp add: map_of_eq_None_iff)
  have upd: "AList.update (key r) r xs = xs @ [(k, r)]"
    using fresh kr by (simp add: update_fresh)
  have "aggregate_loop (map snd ys) (xs @ [(k, r)]) = Inr ((xs @ [(k, r)]) @ ys)"
    using Cons.prems p by (intro Cons.IH) auto
  then show ?case
    using none upd p by simp
qed

text \<open>
  C2. The claim: on a later occurrence of a key the unit cost becomes the summed value
  over the summed quantity, and a summed quantity of zero is guarded and gives 0 instead
  of raising. The code divides without a guard (the guard exists only where a single
  candidate is shaped): two candidates of one key with quantities 5 and -5 raise
  ZeroDivisionError, at the aggregator and through the whole transform.
\<close>

theorem aggregate_zero_quantity:
  "aggregate [example_item ''X1-0-SHOTTYS-2024-01-02'' ''G1'' 5 50,
              example_item ''X1-0-SHOTTYS-2024-01-02'' ''G2'' (- 5) (- 20)] = Inl ZeroDivisionError \<and>
   transform_dashboard_data ''2024-01-02'' (example_payload [''[0,0,0,0]'', ''[0,0,0,1]''])
     = Inl ZeroDivisionError"
  by code_simp

text \<open>
  C7. Aggregating the output of an aggregation, each record taken as one candidate,
  returns that output, in the same order.
\<close>

theorem aggregate_idempotent:
  assumes "aggregate cs = Inr out"
  shows "aggregate out = Inr out"
proof -
  from assms obtain agg where loop: "aggregate_loop cs [] = Inr agg" and out: "out = map snd agg"
    by (auto simp: aggregate_def split: sum.splits)
  have d: "distinct (map fst agg)"
    using aggregate_loop_distinct [OF loop] by simp
  have "\<And>k r. map_of agg k = Some r \<Longrightarrow> key r = k"
    using aggregate_loop_key_of [OF loop] by simp
  with d have "\<forall>(k, r) \<in> set agg. key r = k"
    by auto
  with d have "aggregate_loop (map snd agg) [] = Inr ([] @ agg)"
    by (intro aggregate_loop_replay) simp_all
  then show ?thesis
    by (simp add: aggregate_def out)
qed

text \<open>Three candidates, two of them with the key K.\<close>

theorem aggregate_idempotent_witness:
  "aggregate [example_item ''K'' ''G1'' 5 50, example_item ''L'' ''G3'' 1 1,
              example_item ''K'' ''G2'' 10 20]
     = Inr [(example_item ''K'' ''G1'' 5 50)\<lparr>qty := 15, actual_value := 70, actual_unit_cost := 14 / 3\<rparr>,
            example_item ''L'' ''G3'' 1 1] \<and>
   aggregate [(example_item ''K'' ''G1'' 5 50)\<lparr>qty := 15, actual_value := 70, actual_unit_cost := 14 / 3\<rparr>,
              example_item ''L'' ''G3'' 1 1]
     = Inr [(example_item ''K'' ''G1'' 5 50)\<lparr>qty := 15, actual_value := 70, actual_unit_cost := 14 / 3\<rparr>,
            example_item ''L'' ''G3'' 1 1]"
proof -
  have run: "aggregate [example_item ''K'' ''G1'' 5 50, example_item ''L'' ''G3'' 1 1,
              example_item ''K'' ''G2'' 10 20]
     = Inr [(example_item ''K'' ''G1'' 5 50)\<lparr>qty := 15, actual_value := 70, actual_unit_cost := 14 / 3\<rparr>,
            example_item ''L'' ''G3'' 1 1]"
    by code_simp
  from run aggregate_idempotent [OF run] show ?thesis by simp
qed

text \<open>
  C8. For a key \<open>k\<close> of the candidate list, with \<open>c\<close> the first candidate of that key:
  the output has exactly one record of key \<open>k\<close>, and its date, item, area, GL group,
  type and unit are those of \<open>c\<close>.
\<close>

theorem aggregate_first_seen:
  assumes "aggregate cs = Inr out" and "find (\<lambda>x. key x = k) cs = Some c"
  shows "\<exists>r \<in> set out. key r = k \<and> date r = date c \<and> item r = item c \<and> area r = area c \<and>
           gl_group r = gl_group c \<and> type r = type c \<and> unit r = unit c \<and>
           (\<forall>r' \<in> set out. key r' = k \<longrightarrow> r' = r)"
proof -
  from assms(1) obtain agg where loop: "aggregate_loop cs [] = Inr agg" and out: "out = map snd agg"
    by (auto simp: aggregate_def split: sum.splits)
  have d: "distinct (map fst agg)"
    using aggregate_loop_distinct [OF loop] by simp
  have keyof: "\<And>k r. map_of agg k = Some r \<Longrightarrow> key r = k"
    using aggregate_loop_key_of [OF loop] by simp
  from assms(2) have "c \<in> set cs" and "key c = k"
    by (auto simp: find_Some_iff)
  then have "k \<in> fst ` set agg"
    using aggregate_loop_keys [OF loop] by auto
  then obtain r where r: "map_of agg k = Some r"
    by (metis map_of_eq_None_iff not_Some_eq)
  from aggregate_loop_first [OF loop r] assms(2) have nn: "non_numeric r = non_numeric c"
    by simp
  have "r \<in> set out"
    using r out by (force dest: map_of_SomeD)
  moreover have "key r = k" using keyof r by blast
  moreover have "date r = date c \<and> item r = item c \<and> area r = area c \<and>
           gl_group r = gl_group c \<and> type r = type c \<and> unit r = unit c"
    using nn by (cases r, cases c) (simp add: non_numeric_def)
  moreover have "\<forall>r' \<in> set out. key r' = k \<longrightarrow> r' = r"
  proof (intro ballI impI)
    fix r' assume "r' \<in> set out" and k': "key r' = k"
    then obtain k'' where mem: "(k'', r') \<in> set agg" using out by auto
    with d have "map_of agg k'' = Some r'" by simp
    with keyof k' have "map_of agg k = Some r'" by blast
    with r show "r' = r" by simp
  qed
  ultimately show ?thesis by blast
qed

text \<open>The record of key K keeps the GL group G1 of the first candidate, not G2.\<close>

theorem aggregate_first_seen_witness:
  "\<exists>r \<in> set [(example_item ''K'' ''G1'' 5 50)\<lparr>qty := 15, actual_value := 70, actual_unit_cost := 14 / 3\<rparr>,
              example_item ''L'' ''G3'' 1 1].
     key r = ''K'' \<and> date r = ''2024-01-02'' \<and> item r = ''X1'' \<and> area r = Some ''SHOTTYS'' \<and>
     gl_group r = Some ''G1'' \<and> type r = ''RM'' \<and> unit r = ''EA''"
proof -
  have run: "aggregate [example_item ''K'' ''G1'' 5 50, example_item ''L'' ''G3'' 1 1,
              example_item ''K'' ''G2'' 10 20]
     = Inr [(example_item ''K'' ''G1'' 5 50)\<lparr>qty := 15, actual_value := 70, actual_unit_cost := 14 / 3\<rparr>,
            example_item ''L'' ''G3'' 1 1]"
    by code_simp
  have first: "find (\<lambda>x. key x = ''K'') [example_item ''K'' ''G1'' 5 50, example_item ''L'' ''G3'' 1 1,
              example_item ''K'' ''G2'' 10 20] = Some (example_item ''K'' ''G1'' 5 50)"
    by (simp add: example_item_def)
  from aggregate_first_seen [OF run first] show ?thesis
    by (simp add: example_item_def)
qed

subsection \<open>The transform and the sections of the payload\<close>

lemma decode_values_no_fields:
  "\<forall>i v. resolve_value cms emv i v = Inr None \<Longrightarrow> decode_values cms emv ps obj = Inr obj"
  by (induction ps arbitrary: obj) auto

lemma rows_loop_no_fields:
  "\<forall>i v. resolve_value cms emv i v = Inr None \<Longrightarrow>
   \<forall>k \<in> set ks. \<forall>e. py_loads k \<noteq> Raised e \<Longrightarrow>
   \<exists>l. rows_loop py_loads cms emv date_now ks (out, last_obj) = Inr (out, l)"
proof (induction ks arbitrary: last_obj)
  case Nil
  then show ?case by simp
next
  case (Cons k ks)
  then show ?case
    by (cases "py_loads k")
       (auto simp: decode_values_no_fields map_owner_def date_filter_def split: option.splits)
qed

lemma resolve_value_no_maps: "resolve_value cms (EncodeDict Map.empty) i v = Inr None"
  by (simp add: resolve_value_def Let_def split: option.splits)

lemma resolve_value_no_columns: "resolve_value [] emv i v = Inr None"
  by (simp add: resolve_value_def)

lemma rows_to_result:
  assumes "\<forall>i v. resolve_value cms emv i v = Inr None"
    and "\<forall>k \<in> set ks. \<forall>e. py_loads k \<noteq> Raised e"
  shows "(case rows_loop py_loads cms emv date_now ks ([], None) of
            Inl e \<Rightarrow> Inl e
          | Inr (output, last_obj) \<Rightarrow>
              (case items_loop py_float last_obj output of
                 Inl e \<Rightarrow> Inl e
               | Inr inventory_items \<Rightarrow> aggregate inventory_items)) = Inr []"
proof -
  from rows_loop_no_fields [OF assms] obtain l where
    "rows_loop py_loads cms emv date_now ks ([], None) = Inr ([], l)" by blast
  then show ?thesis by (simp add: aggregate_def)
qed

lemma mappings_of_dicts:
  "list_all (\<lambda>col. col \<noteq> NotDict) cols \<Longrightarrow> \<exists>ms. mappings_of cols = Inr ms"
proof (induction cols)
  case Nil
  then show ?case by simp
next
  case (Cons c cols)
  then show ?case by (cases c) auto
qed

text \<open>With sections of the expected types, the lines that take them out raise nothing.\<close>

lemma columns_ok_mappings:
  assumes "columns_ok dd"
  shows "\<exists>columns cms. get_columns dd = Inr columns \<and> get_column_mappings columns = Inr cms \<and>
           (columns_missing dd \<longrightarrow> cms = [])"
proof (cases "ViewModel dd")
  case None
  then show ?thesis
    by (simp add: get_columns_def get_column_mappings_def)
next
  case (Some v)
  with assms obtain vm where v: "v = Dict vm"
    by (cases v) (auto simp: columns_ok_def)
  show ?thesis
  proof (cases "Columns vm")
    case None
    with Some v show ?thesis
      by (simp add: get_columns_def get_column_mappings_def)
  next
    case (Some c)
    with assms \<open>ViewModel dd = Some v\<close> v obtain cols where
      c: "c = Elements cols" and dicts: "list_all (\<lambda>col. col \<noteq> NotDict) cols"
      by (cases c) (auto simp: columns_ok_def)
    from mappings_of_dicts [OF dicts] obtain ms where "mappings_of cols = Inr ms" ..
    with Some \<open>ViewModel dd = Some v\<close> v c show ?thesis
      by (simp add: get_columns_def get_column_mappings_def columns_missing_def)
  qed
qed

lemma storage_ok_sections:
  assumes "storage_ok dd"
  shows "\<exists>ds em. get_data_storage dd = Inr (Dict ds) \<and>
           get_slices_data ds = Inr (Dict (row_keys dd)) \<and>
           get_encode_maps ds = EncodeDict em \<and>
           (storage_missing dd \<longrightarrow> row_keys dd = [] \<or> em = Map.empty)"
proof -
  have empty: ?thesis
    if "get_data_storage dd = Inr (Dict empty_data_storage)" and "row_keys dd = []"
    using that
    by (intro exI [of _ empty_data_storage] exI [of _ Map.empty])
       (simp add: get_slices_data_def get_encode_maps_def first_item_def empty_data_storage_def)
  show ?thesis
  proof (cases "ItemData dd")
    case None
    then show ?thesis
      by (intro empty) (simp_all add: get_data_storage_def row_keys_def)
  next
    case (Some v)
    with assms obtain idt where v: "v = Dict idt"
      by (cases v) (auto simp: storage_ok_def)
    note item = Some [unfolded v]
    show ?thesis
    proof (cases "DataStorageDTO idt")
      case None
      with item show ?thesis
        by (intro empty) (simp_all add: get_data_storage_def row_keys_def)
    next
      case (Some w)
      with assms item obtain ds where w: "w = Dict ds"
        by (cases w) (auto simp: storage_ok_def)
      note dto = Some [unfolded w]
      from assms item dto have sl: "case Slices ds of None \<Rightarrow> True
            | Some (Elements (Dict slice0 # _)) \<Rightarrow> Data slice0 \<noteq> Some NotDict | Some _ \<Rightarrow> False"
        and enc: "case EncodeMaps ds of None \<Rightarrow> True | Some (EncodeDict em) \<Rightarrow> True | Some _ \<Rightarrow> False"
        by (simp_all add: storage_ok_def)
      from enc obtain em where em: "get_encode_maps ds = EncodeDict em"
        and em_missing: "EncodeMaps ds = None \<longrightarrow> em = Map.empty"
        by (auto simp: get_encode_maps_def split: option.splits encode_maps_value.splits)
      have gds: "get_data_storage dd = Inr (Dict ds)"
        using item dto by (simp add: get_data_storage_def)
      have keys: "get_slices_data ds = Inr (Dict (row_keys dd))"
        and keys_missing:
          "Slices ds = None \<or> (case Slices ds of
               Some (Elements (Dict slice0 # _)) \<Rightarrow> Data slice0 = None | _ \<Rightarrow> False)
             \<longrightarrow> row_keys dd = []"
        using sl item dto
        by (auto simp: get_slices_data_def first_item_def row_keys_def
                 split: option.splits list_value.splits list.splits dict_value.splits)
      from gds keys em em_missing keys_missing item dto show ?thesis
        by (auto simp: storage_missing_def)
    qed
  qed
qed

lemma loads_ints_not_raised: "loads_ints k \<noteq> Raised e"
  by (simp add: loads_ints_def split: option.splits)

text \<open>
  Structural errors the transform does raise: a section that is present and not of the
  expected type (here the item data being null), a \<^verbatim>\<open>Slices\<close> list that is present
  and empty, and an exception of \<^verbatim>\<open>json.loads\<close> other than JSONDecodeError on a row
  key.
\<close>

lemma transform_not_dict:
  "ItemData dd = Some NotDict \<Longrightarrow>
   transform_dashboard_data_with py_loads py_float date_now dd = Inl AttributeError"
  by (simp add: transform_dashboard_data_with_def get_data_storage_def)

lemma transform_empty_slices:
  "ItemData dd = Some (Dict idt) \<Longrightarrow> DataStorageDTO idt = Some (Dict ds) \<Longrightarrow>
   Slices ds = Some (Elements []) \<Longrightarrow>
   transform_dashboard_data_with py_loads py_float date_now dd = Inl IndexError"
  by (simp add: transform_dashboard_data_with_def get_data_storage_def get_slices_data_def
        first_item_def)

lemma transform_loads_raises:
  "transform_dashboard_data_with (\<lambda>k. Raised RecursionError) py_float date_now
     \<lparr>ItemData = Some (Dict \<lparr>DataStorageDTO = Some (Dict
         \<lparr>Slices = Some (Elements [Dict \<lparr>Data = Some (Dict [''[[[['']) \<rparr>]), EncodeMaps = None\<rparr>)\<rparr>),
      ViewModel = None\<rparr> = Inl RecursionError"
  by (simp add: transform_dashboard_data_with_def get_data_storage_def get_slices_data_def
        first_item_def get_encode_maps_def get_columns_def get_column_mappings_def)

text \<open>
  C5, as stated, fails: a payload with no section at all is transformed to the empty
  list, and nothing is raised.
\<close>

theorem transform_missing_section_counterexample:
  "transform_dashboard_data ''2024-01-02'' \<lparr>ItemData = None, ViewModel = None\<rparr> = Inr []"
  by code_simp

text \<open>
  C5, amended. Take a payload in which a section the transform reads is missing (item
  data, data storage, slices, the data of the first slice, encode maps, view model or
  columns), every section that is present being of the type the code expects, and let
  \<^verbatim>\<open>json.loads\<close> raise nothing but JSONDecodeError on the row keys. Then the transform
  raises nothing for the missing section: it is replaced by an empty default, and the
  result is the empty list.
\<close>

theorem transform_missing_section:
  assumes "sections_ok dd" and "missing_section dd"
    and "\<forall>k \<in> set (row_keys dd). \<forall>e. py_loads k \<noteq> Raised e"
  shows "transform_dashboard_data_with py_loads py_float date_now dd = Inr []"
proof -
  from assms(1) have s: "storage_ok dd" and c: "columns_ok dd"
    by (simp_all add: sections_ok_def)
  from storage_ok_sections [OF s] obtain ds em where
    gds: "get_data_storage dd = Inr (Dict ds)" and
    keys: "get_slices_data ds = Inr (Dict (row_keys dd))" and
    em: "get_encode_maps ds = EncodeDict em" and
    sm: "storage_missing dd \<longrightarrow> row_keys dd = [] \<or> em = Map.empty"
    by blast
  from columns_ok_mappings [OF c] obtain columns cms where
    cols: "get_columns dd = Inr columns" and ms: "get_column_mappings columns = Inr cms" and
    cm: "columns_missing dd \<longrightarrow> cms = []"
    by blast
  have rows: "(case rows_loop py_loads cms (EncodeDict em) date_now (row_keys dd) ([], None) of
            Inl e \<Rightarrow> Inl e
          | Inr (output, last_obj) \<Rightarrow>
              (case items_loop py_float last_obj output of
                 Inl e \<Rightarrow> Inl e
               | Inr inventory_items \<Rightarrow> aggregate inventory_items)) = Inr []"
  proof -
    from assms(2) sm cm consider "row_keys dd = []" | "em = Map.empty" | "cms = []"
      by (auto simp: missing_section_def)
    then show ?thesis
    proof cases
      case 1
      then show ?thesis by (simp add: aggregate_def)
    next
      case 2
      then show ?thesis
        using assms(3) by (intro rows_to_result) (simp_all add: resolve_value_no_maps)
    next
      case 3
      then show ?thesis
        using assms(3) by (intro rows_to_result) (simp_all add: resolve_value_no_columns)
    qed
  qed
  show ?thesis
    unfolding transform_dashboard_data_with_def
    by (simp add: gds keys em cols ms rows)
qed

text \<open>A payload with a row and the columns, and no encode maps.\<close>

theorem transform_missing_section_witness:
  "sections_ok
     \<lparr>ItemData = Some (Dict \<lparr>DataStorageDTO = Some (Dict
         \<lparr>Slices = Some (Elements [Dict \<lparr>Data = Some (Dict [''[0,0,0,0]''])\<rparr>]), EncodeMaps = None\<rparr>)\<rparr>),
      ViewModel = Some (Dict \<lparr>Columns = Some (Elements (map Dict example_columns))\<rparr>)\<rparr> \<and>
   missing_section
     \<lparr>ItemData = Some (Dict \<lparr>DataStorageDTO = Some (Dict
         \<lparr>Slices = Some (Elements [Dict \<lparr>Data = Some (Dict [''[0,0,0,0]''])\<rparr>]), EncodeMaps = None\<rparr>)\<rparr>),
      ViewModel = Some (Dict \<lparr>Columns = Some (Elements (map Dict example_columns))\<rparr>)\<rparr> \<and>
   transform_dashboard_data_with loads_ints float_py ''2024-01-02''
     \<lparr>ItemData = Some (Dict \<lparr>DataStorageDTO = Some (Dict
         \<lparr>Slices = Some (Elements [Dict \<lparr>Data = Some (Dict [''[0,0,0,0]''])\<rparr>]), EncodeMaps = None\<rparr>)\<rparr>),
      ViewModel = Some (Dict \<lparr>Columns = Some (Elements (map Dict example_columns))\<rparr>)\<rparr> = Inr []"
proof -
  let ?dd = "\<lparr>ItemData = Some (Dict \<lparr>DataStorageDTO = Some (Dict
         \<lparr>Slices = Some (Elements [Dict \<lparr>Data = Some (Dict [''[0,0,0,0]''])\<rparr>]), EncodeMaps = None\<rparr>)\<rparr>),
      ViewModel = Some (Dict \<lparr>Columns = Some (Elements (map Dict example_columns))\<rparr>)\<rparr>"
  have ok: "sections_ok ?dd"
    by (simp add: sections_ok_def storage_ok_def columns_ok_def example_columns_def)
  have m: "missing_section ?dd"
    by (simp add: missing_section_def storage_missing_def)
  have l: "\<forall>k \<in> set (row_keys ?dd). \<forall>e. loads_ints k \<noteq> Raised e"
    by (simp add: loads_ints_not_raised)
  from ok m transform_missing_section [OF ok m l, of float_py "''2024-01-02''"] show ?thesis
    by simp
qed

subsection \<open>Exit codes\<close>

text \<open>The connection check fails without a connection string and when connecting raises; it
  never raises an \<open>Exception\<close> itself.\<close>

lemma test_connection_fails:
  "database_url e = None \<or> database_url e = Some [] \<or> connect e = Raises Exception \<Longrightarrow>
   test_connection e = Returns False"
  by (auto simp: test_connection_def split: option.splits)

lemma test_connection_catches: "test_connection e \<noteq> Raises Exception"
  by (auto simp: test_connection_def split: option.splits outcome.splits raised.splits)

text \<open>
  C9. The exit code of \<^verbatim>\<open>main\<close>: 1 when the connection check fails, before any
  scraping; 0 when nothing was scraped, without an upload; 0 when the upload returns;
  1 when the scrape or the upload raises an exception; 130 when a step is interrupted by
  the user.
\<close>

theorem main_exit_codes:
  "(test_connection e = Returns False \<longrightarrow> main e = ([TestConnection], Inr 1)) \<and>
   (test_connection e = Returns True \<and> scrape_markov_inventory e = Returns [] \<longrightarrow>
      main e = ([TestConnection, Scrape], Inr 0)) \<and>
   (test_connection e = Returns True \<and> scrape_markov_inventory e = Returns items \<and> items \<noteq> [] \<and>
    upload_inventory_to_postgres e items = Returns n \<longrightarrow>
      main e = ([TestConnection, Scrape, Upload], Inr 0)) \<and>
   (test_connection e = Returns True \<and>
    (scrape_markov_inventory e = Raises Exception \<or>
     scrape_markov_inventory e = Returns items \<and> items \<noteq> [] \<and>
     upload_inventory_to_postgres e items = Raises Exception) \<longrightarrow>
      snd (main e) = Inr 1) \<and>
   (test_connection e = Raises KeyboardInterrupt \<or>
    test_connection e = Returns True \<and>
    (scrape_markov_inventory e = Raises KeyboardInterrupt \<or>
     scrape_markov_inventory e = Returns items \<and> items \<noteq> [] \<and>
     upload_inventory_to_postgres e items = Raises KeyboardInterrupt) \<longrightarrow>
      snd (main e) = Inr 130)"
  by (auto simp: main_def handler_def)

text \<open>Five runs: database down, nothing scraped, upload done, upload failed, interrupt.\<close>

theorem main_exit_codes_witness:
  "main (example_env (Raises Exception) (Returns []) (Returns 0)) = ([TestConnection], Inr 1) \<and>
   main (example_env (Returns ()) (Returns []) (Returns 0)) = ([TestConnection, Scrape], Inr 0) \<and>
   main (example_env (Returns ()) (Returns [example_item ''K'' ''G1'' 5 50]) (Returns 1))
     = ([TestConnection, Scrape, Upload], Inr 0) \<and>
   snd (main (example_env (Returns ()) (Returns [example_item ''K'' ''G1'' 5 50]) (Raises Exception)))
     = Inr 1 \<and>
   snd (main (example_env (Returns ()) (Raises KeyboardInterrupt) (Returns 0))) = Inr 130"
proof -
  have down: "test_connection (example_env (Raises Exception) (Returns []) (Returns 0)) = Returns False"
    by (simp add: test_connection_def example_env_def)
  have up: "\<And>s u. test_connection (example_env (Returns ()) s u) = Returns True"
    by (simp add: test_connection_def example_env_def)
  have sc: "\<And>c s u. scrape_markov_inventory (example_env c s u) = s"
    and ul: "\<And>c s u x. upload_inventory_to_postgres (example_env c s u) x = u"
    by (simp_all add: example_env_def)
  have ne: "[example_item ''K'' ''G1'' 5 50] \<noteq> []" by simp
  from main_exit_codes [of "example_env (Raises Exception) (Returns []) (Returns 0)"] down
  have 1: "main (example_env (Raises Exception) (Returns []) (Returns 0)) = ([TestConnection], Inr 1)"
    by blast
  from main_exit_codes [of "example_env (Returns ()) (Returns []) (Returns 0)"] up sc
  have 2: "main (example_env (Returns ()) (Returns []) (Returns 0)) = ([TestConnection, Scrape], Inr 0)"
    by simp
  from main_exit_codes [of "example_env (Returns ()) (Returns [example_item ''K'' ''G1'' 5 50]) (Returns 1)"
      "[example_item ''K'' ''G1'' 5 50]" 1] up sc ul ne
  have 3: "main (example_env (Returns ()) (Returns [example_item ''K'' ''G1'' 5 50]) (Returns 1))
     = ([TestConnection, Scrape, Upload], Inr 0)"
    by simp
  from main_exit_codes [of "example_env (Returns ()) (Returns [example_item ''K'' ''G1'' 5 50]) (Raises Exception)"
      "[example_item ''K'' ''G1'' 5 50]"] up sc ul ne
  have 4: "snd (main (example_env (Returns ()) (Returns [example_item ''K'' ''G1'' 5 50]) (Raises Exception)))
     = Inr 1"
    by simp
  from main_exit_codes [of "example_env (Returns ()) (Raises KeyboardInterrupt) (Returns 0)"] up sc
  have 5: "snd (main (example_env (Returns ()) (Raises KeyboardInterrupt) (Returns 0))) = Inr 130"
    by simp
  from 1 2 3 4 5 show ?thesis by blast
qed

end
